theory Spec2Isabelle
  imports Complex_Main
begin

section \<open>JavaScript values and objects\<close>

text \<open>
  The brand documents handled by \<^verbatim>\<open>BrandsService\<close> are plain JavaScript objects as
  returned by \<^verbatim>\<open>find().lean()\<close>. A value is \<^verbatim>\<open>undefined\<close>, \<^verbatim>\<open>null\<close>, a boolean, a
  number, \<^verbatim>\<open>NaN\<close>, a string, a nested plain object, an ObjectId (given by its hexadecimal
  rendering, which is what \<^verbatim>\<open>toString\<close> returns) or a Date (given by its time value).
  A number is the rational it denotes, or one of the two infinities. Where a result
  depends on how a number is rounded to a double or rendered in exponent notation, it is
  taken from the host (see \<open>host\<close> below) and not computed. Arrays are outside the model.
  An object is the list of its own properties in the order \<^verbatim>\<open>Object.keys\<close> enumerates
  them, with distinct names.
\<close>

datatype jsval =
    JUndefined
  | JNull
  | JBool bool
  | JNum rat
  | JInfinity bool
  | JNaN
  | JStr string
  | JObj "(string \<times> jsval) list"
  | JObjectId string
  | JDate int

type_synonym jsobj = "(string \<times> jsval) list"

text \<open>\<^verbatim>\<open>obj[k]\<close>: a missing property reads as \<^verbatim>\<open>undefined\<close>.\<close>

definition get_prop :: "jsobj \<Rightarrow> string \<Rightarrow> jsval" where
  "get_prop obj k = (case map_of obj k of None \<Rightarrow> JUndefined | Some v \<Rightarrow> v)"

text \<open>\<^verbatim>\<open>obj[k] = v\<close>: an existing property keeps its place, a new one goes last.\<close>

fun set_prop :: "string \<Rightarrow> jsval \<Rightarrow> jsobj \<Rightarrow> jsobj" where
  "set_prop k v [] = [(k, v)]"
| "set_prop k v (p # ps) = (if fst p = k then (k, v) # ps else p # set_prop k v ps)"

text \<open>\<^verbatim>\<open>delete obj[k]\<close>.\<close>

definition delete_prop :: "string \<Rightarrow> jsobj \<Rightarrow> jsobj" where
  "delete_prop k obj = filter (\<lambda>p. fst p \<noteq> k) obj"

definition Object_keys :: "jsobj \<Rightarrow> string list" where
  "Object_keys obj = map fst obj"

text \<open>
  \<^verbatim>\<open>String.prototype.toLowerCase\<close> on the ASCII letters; other characters are left as
  they are. \<^verbatim>\<open>String.prototype.includes\<close> is containment of a contiguous substring.
\<close>

definition lower_char :: "char \<Rightarrow> char" where
  "lower_char c =
     (let n = (of_char c :: nat) in if 65 \<le> n \<and> n \<le> 90 then char_of (n + 32) else c)"

definition toLowerCase :: "string \<Rightarrow> string" where
  "toLowerCase s = map lower_char s"

fun str_includes :: "string \<Rightarrow> string \<Rightarrow> bool" where
  "str_includes [] pat = (pat = [])"
| "str_includes (c # s) pat = (take (length pat) (c # s) = pat \<or> str_includes s pat)"

subsection \<open>Numeric strings\<close>

definition is_ws :: "char \<Rightarrow> bool" where
  "is_ws c = ((of_char c :: nat) \<in> {9, 10, 11, 12, 13, 32, 160})"

definition is_digit :: "char \<Rightarrow> bool" where
  "is_digit c = (48 \<le> (of_char c :: nat) \<and> (of_char c :: nat) \<le> 57)"

definition digit_val :: "char \<Rightarrow> int" where
  "digit_val c = of_char c - 48"

definition digits_val :: "string \<Rightarrow> int" where
  "digits_val s = foldl (\<lambda>a c. 10 * a + digit_val c) 0 s"

definition is_hexdigit :: "char \<Rightarrow> bool" where
  "is_hexdigit c = (is_digit c \<or> (let n = (of_char (lower_char c) :: nat) in 97 \<le> n \<and> n \<le> 102))"

definition hexdigit_val :: "char \<Rightarrow> int" where
  "hexdigit_val c = (if is_digit c then digit_val c else of_char (lower_char c) - 87)"

definition hex_val :: "string \<Rightarrow> int" where
  "hex_val s = foldl (\<lambda>a c. 16 * a + hexdigit_val c) 0 s"

text \<open>\<^verbatim>\<open>String.prototype.trim\<close>.\<close>

definition trim_str :: "string \<Rightarrow> string" where
  "trim_str s = rev (dropWhile is_ws (rev (dropWhile is_ws s)))"

text \<open>An optional sign: whether it is a minus, and the rest.\<close>

fun strip_sign :: "string \<Rightarrow> bool \<times> string" where
  "strip_sign [] = (False, [])"
| "strip_sign (c # s) =
     (if c = CHR ''-'' then (True, s) else if c = CHR ''+'' then (False, s) else (False, c # s))"

definition pow10 :: "int \<Rightarrow> rat" where
  "pow10 e = (if 0 \<le> e then 10 ^ nat e else 1 / 10 ^ nat (- e))"

text \<open>The exponent part of a decimal literal: empty, or \<^verbatim>\<open>e\<close> with a signed integer.\<close>

definition exponent_part :: "string \<Rightarrow> int option" where
  "exponent_part r =
     (case r of
        [] \<Rightarrow> Some 0
      | c # t \<Rightarrow>
          if c = CHR ''e'' \<or> c = CHR ''E'' then
            (case strip_sign t of
               (neg, d) \<Rightarrow>
                 if d \<noteq> [] \<and> list_all is_digit d
                 then Some (if neg then - digits_val d else digits_val d)
                 else None)
          else None)"

text \<open>
  An unsigned decimal literal: digits with an optional fraction, or a fraction alone, then
  an optional exponent. It is split into its digits and the power of ten that scales
  them; its value is the product.
\<close>

definition decimal_parts :: "string \<Rightarrow> (string \<times> int) option" where
  "decimal_parts s =
     (let ip = takeWhile is_digit s;
          r1 = dropWhile is_digit s;
          dot = (r1 \<noteq> [] \<and> hd r1 = CHR ''.'');
          fp = (if dot then takeWhile is_digit (tl r1) else []);
          r2 = (if dot then dropWhile is_digit (tl r1) else r1)
      in if ip = [] \<and> fp = [] then None
         else (case exponent_part r2 of
                 None \<Rightarrow> None
               | Some e \<Rightarrow> Some (ip @ fp, e - int (length fp))))"

definition unsigned_decimal :: "string \<Rightarrow> rat option" where
  "unsigned_decimal s =
     map_option (\<lambda>me. of_int (digits_val (fst me)) * pow10 (snd me)) (decimal_parts s)"

definition signed_decimal :: "string \<Rightarrow> rat option" where
  "signed_decimal s =
     (case strip_sign s of
        (neg, r) \<Rightarrow> map_option (\<lambda>q. if neg then - q else q) (unsigned_decimal r))"

text \<open>
  The decimal literals whose conversion to a number involves no rounding that could be
  observed: those that denote an integer of magnitude at most \<^verbatim>\<open>2^53 - 1\<close>, and those
  with at most 15 significant digits and a magnitude between \<^verbatim>\<open>1e-300\<close> and
  \<^verbatim>\<open>1e300\<close> (or zero). Such a literal is the shortest rendering of the double nearest to
  it, and comparing it with an integer gives what comparing that double gives.
\<close>

definition significant :: "string \<Rightarrow> string" where
  "significant m =
     rev (dropWhile (\<lambda>c. c = CHR ''0'') (rev (dropWhile (\<lambda>c. c = CHR ''0'') m)))"

definition exact_decimal :: "string \<Rightarrow> bool" where
  "exact_decimal t =
     (case decimal_parts (snd (strip_sign t)) of
        None \<Rightarrow> False
      | Some me \<Rightarrow>
          (let q = of_int (digits_val (fst me)) * pow10 (snd me)
           in (q = of_int \<lfloor>q\<rfloor> \<and> q \<le> 9007199254740991) \<or>
              (length (significant (fst me)) \<le> 15 \<and>
               (q = 0 \<or> (1 / 10 ^ 300 \<le> q \<and> q \<le> 10 ^ 300)))))"

text \<open>
  The literals \<^verbatim>\<open>0x\<close>, \<^verbatim>\<open>0o\<close> and \<^verbatim>\<open>0b\<close> that \<^verbatim>\<open>Number\<close> accepts besides the decimal
  ones.
\<close>

definition radix_literal :: "string \<Rightarrow> bool" where
  "radix_literal t =
     (case t of
        z # x # d # ds \<Rightarrow>
          z = CHR ''0'' \<and>
          (if lower_char x = CHR ''x'' then list_all is_hexdigit (d # ds)
           else if lower_char x = CHR ''o'' then list_all (\<lambda>c. c \<in> set ''01234567'') (d # ds)
           else if lower_char x = CHR ''b'' then list_all (\<lambda>c. c \<in> set ''01'') (d # ds)
           else False)
      | _ \<Rightarrow> False)"

text \<open>\<^verbatim>\<open>isNaN(Number(s))\<close> for a string: whether it is not a numeric literal.\<close>

definition isNaN_str :: "string \<Rightarrow> bool" where
  "isNaN_str s =
     (let t = trim_str s
      in \<not> (t = [] \<or> signed_decimal t \<noteq> None \<or> snd (strip_sign t) = ''Infinity''
             \<or> radix_literal t))"

text \<open>
  The global \<^verbatim>\<open>isNaN(v)\<close>: \<^verbatim>\<open>v\<close> is converted with \<^verbatim>\<open>Number\<close> first. An ObjectId is
  converted through its hexadecimal string, a plain object through
  \<^verbatim>\<open>"[object Object]"\<close>, a Date through its time value.
\<close>

fun isNaN :: "jsval \<Rightarrow> bool" where
  "isNaN JUndefined = True"
| "isNaN JNull = False"
| "isNaN (JBool b) = False"
| "isNaN (JNum q) = False"
| "isNaN (JInfinity neg) = False"
| "isNaN JNaN = True"
| "isNaN (JStr s) = isNaN_str s"
| "isNaN (JObj ps) = True"
| "isNaN (JObjectId h) = isNaN_str h"
| "isNaN (JDate t) = False"

text \<open>Whether a value counts as true in a condition.\<close>

fun truthy :: "jsval \<Rightarrow> bool" where
  "truthy JUndefined = False"
| "truthy JNull = False"
| "truthy (JBool b) = b"
| "truthy (JNum q) = (q \<noteq> 0)"
| "truthy (JInfinity neg) = True"
| "truthy JNaN = False"
| "truthy (JStr s) = (s \<noteq> [])"
| "truthy (JObj ps) = True"
| "truthy (JObjectId h) = True"
| "truthy (JDate t) = True"

subsection \<open>The host\<close>

text \<open>
  What the service takes from its host: the year read from the clock when the module is
  loaded, and the results that depend on floating-point rounding or on the platform,
  which are parameters here. These are the time value that a date schema reads from a
  string that is not an exact decimal literal, the rendering of a number that is written
  in exponent notation, the number that \<^verbatim>\<open>parseInt\<close> returns for an integer beyond
  \<^verbatim>\<open>2^53 - 1\<close> (the nearest double or an infinity), and what a number schema makes of a
  decimal literal that is not exact: whether it is accepted, and the number it is read as.
\<close>

record host =
  currentYear :: int
  Date_parse :: "string \<Rightarrow> int option"
  Number_toString :: "rat \<Rightarrow> string"
  Number_of_integer :: "int \<Rightarrow> jsval"
  inexact_decimal :: "string \<Rightarrow> bool \<times> jsval"

text \<open>The number for a mathematical integer: itself when a double holds it exactly.\<close>

definition Number_of :: "host \<Rightarrow> int \<Rightarrow> jsval" where
  "Number_of h n =
     (if \<bar>n\<bar> \<le> 9007199254740991 then JNum (of_int n) else Number_of_integer h n)"

text \<open>
  \<^verbatim>\<open>parseInt(s)\<close> on a string: leading white space is dropped, then a sign, then
  \<^verbatim>\<open>0x\<close> selects radix 16; the longest run of digits is read and the rest is ignored. No
  digit gives \<^verbatim>\<open>NaN\<close>.
\<close>

definition parseInt_str :: "host \<Rightarrow> string \<Rightarrow> jsval" where
  "parseInt_str h s =
     (case strip_sign (dropWhile is_ws s) of
        (neg, r) \<Rightarrow>
          if length r \<ge> 2 \<and> hd r = CHR ''0'' \<and> lower_char (hd (tl r)) = CHR ''x'' then
            (let z = takeWhile is_hexdigit (drop 2 r)
             in if z = [] then JNaN
                else Number_of h (if neg then - hex_val z else hex_val z))
          else
            (let z = takeWhile is_digit r
             in if z = [] then JNaN
                else Number_of h (if neg then - digits_val z else digits_val z)))"

text \<open>
  \<^verbatim>\<open>parseInt(x)\<close> on a number reads the integer at the start of the number's rendering.
  From \<^verbatim>\<open>1e-6\<close> up to \<^verbatim>\<open>1e21\<close> the rendering is positional and the result is the
  integral part; outside, the rendering is in exponent notation and is the host's.
\<close>

definition parseInt_num :: "host \<Rightarrow> rat \<Rightarrow> jsval" where
  "parseInt_num h q =
     (let a = \<bar>q\<bar>
      in if a = 0 then JNum 0
         else if 1 / 10 ^ 6 \<le> a \<and> a < 10 ^ 21 then JNum (sgn q * of_int \<lfloor>a\<rfloor>)
         else parseInt_str h (Number_toString h q))"

text \<open>
  The global \<^verbatim>\<open>parseInt(v)\<close>: \<^verbatim>\<open>v\<close> is converted to a string first. The renderings of
  \<^verbatim>\<open>undefined\<close>, \<^verbatim>\<open>null\<close>, booleans, \<^verbatim>\<open>NaN\<close>, the infinities, plain objects and dates
  start with a letter or a bracket, or with a sign and a letter, so they give \<^verbatim>\<open>NaN\<close>.
\<close>

fun parseInt :: "host \<Rightarrow> jsval \<Rightarrow> jsval" where
  "parseInt h (JStr s) = parseInt_str h s"
| "parseInt h (JNum q) = parseInt_num h q"
| "parseInt h (JObjectId i) = parseInt_str h i"
| "parseInt h v = JNaN"

section \<open>The validator\<close>

text \<open>
  \<^verbatim>\<open>validate\<close> (shared/utlis/validate.ts) calls \<^verbatim>\<open>Schema.validate\<close> of the Joi library
  with fixed options and returns its result: the normalised value and, when the data is
  invalid, an error whose \<^verbatim>\<open>details\<close> list has one entry per failure. Of an entry the
  service reads \<^verbatim>\<open>context.key\<close> and \<^verbatim>\<open>context.value\<close>. A schema object is
  represented by its \<^verbatim>\<open>validate\<close> method.
\<close>

record ValidationErrorItem =
  err_type :: string
  ctx_key :: string
  ctx_value :: jsval

record ValidationResult =
  val :: jsobj
  error :: "ValidationErrorItem list option"

record prefs =
  abortEarly :: bool
  convert :: bool

type_synonym ObjectSchema = "jsobj \<Rightarrow> prefs \<Rightarrow> ValidationResult"

definition validate :: "jsobj \<Rightarrow> ObjectSchema \<Rightarrow> ValidationResult" where
  "validate data Schema = Schema data \<lparr>abortEarly = False, convert = True\<rparr>"

subsection \<open>The Joi schemas of the service\<close>

text \<open>
  Modelled from the spec: the Joi library is a dependency and not part of the repository.
  What follows is the validation of the schema kinds that \<^verbatim>\<open>brandsSchema\<close> is built from
  (\<^verbatim>\<open>Joi.object\<close>, \<^verbatim>\<open>Joi.string\<close>, \<^verbatim>\<open>Joi.number\<close>, \<^verbatim>\<open>Joi.date\<close> with \<^verbatim>\<open>required\<close>,
  \<^verbatim>\<open>trim\<close>, \<^verbatim>\<open>min\<close>, \<^verbatim>\<open>max\<close>, \<^verbatim>\<open>default\<close>), as section 4.1 of the specification
  describes the validator: every key is checked, numeric-looking strings are converted
  when conversion is on, and failures are returned, not thrown. A numeric-looking string
  is a decimal literal, with white space around it allowed; where its conversion would
  depend on rounding, the outcome is the host's.
\<close>

datatype joi_base = JoiObject | JoiString | JoiNumber | JoiDate

record joi_schema =
  base :: joi_base
  presence_required :: bool
  trim_enabled :: bool
  min_limit :: "rat option"
  max_limit :: "rat option"
  default_value :: "jsval option"

definition Joi_any :: "joi_base \<Rightarrow> joi_schema" where
  "Joi_any b = \<lparr>base = b, presence_required = False, trim_enabled = False,
                min_limit = None, max_limit = None, default_value = None\<rparr>"

definition joi_required :: "joi_schema \<Rightarrow> joi_schema" where
  "joi_required s = s\<lparr>presence_required := True\<rparr>"

definition joi_trim :: "joi_schema \<Rightarrow> joi_schema" where
  "joi_trim s = s\<lparr>trim_enabled := True\<rparr>"

definition joi_min :: "rat \<Rightarrow> joi_schema \<Rightarrow> joi_schema" where
  "joi_min l s = s\<lparr>min_limit := Some l\<rparr>"

definition joi_max :: "rat \<Rightarrow> joi_schema \<Rightarrow> joi_schema" where
  "joi_max l s = s\<lparr>max_limit := Some l\<rparr>"

definition joi_default :: "jsval \<Rightarrow> joi_schema \<Rightarrow> joi_schema" where
  "joi_default v s = s\<lparr>default_value := Some v\<rparr>"

text \<open>A string of the form \<^verbatim>\<open>[+-]?\d+(\.\d+)?\<close>, which a date schema reads as a number.\<close>

definition plain_decimal :: "string \<Rightarrow> rat option" where
  "plain_decimal s =
     (case strip_sign s of
        (neg, r) \<Rightarrow>
          (let ip = takeWhile is_digit r; r1 = dropWhile is_digit r
           in if ip = [] then None
              else if r1 = [] \<or> (hd r1 = CHR ''.'' \<and> tl r1 \<noteq> [] \<and> list_all is_digit (tl r1))
              then (if exact_decimal s then signed_decimal s else None)
              else None))"

text \<open>\<^verbatim>\<open>new Date(q)\<close> for a number: a date when the time value is in range.\<close>

definition date_of_number :: "rat \<Rightarrow> jsval option" where
  "date_of_number q =
     (if \<bar>q\<bar> \<le> 8640000000000000 then Some (JDate (sgn \<lfloor>q\<rfloor> * \<lfloor>\<bar>q\<bar>\<rfloor>)) else None)"

text \<open>
  Conversion, applied when the \<^verbatim>\<open>convert\<close> option is on: the failures it raises and
  the converted value. A string schema trims. A number schema reads a decimal literal:
  an exact one as its value, another as the host says, with the failure
  \<^verbatim>\<open>number.unsafe\<close> when the host does not accept it. A date schema reads a number, or
  a string: an exact plain decimal as a number, another string as the host says. A value
  that cannot be converted is kept.
\<close>

definition joi_coerce :: "host \<Rightarrow> joi_schema \<Rightarrow> jsval \<Rightarrow> string list \<times> jsval" where
  "joi_coerce h c v =
     (case (base c, v) of
        (JoiString, JStr s) \<Rightarrow> ([], if trim_enabled c then JStr (trim_str s) else v)
      | (JoiNumber, JStr s) \<Rightarrow>
          (case signed_decimal (trim_str s) of
             None \<Rightarrow> ([], v)
           | Some q \<Rightarrow>
               if exact_decimal (trim_str s) then ([], JNum q)
               else (if fst (inexact_decimal h (trim_str s)) then [] else [''number.unsafe''],
                     snd (inexact_decimal h (trim_str s))))
      | (JoiDate, JNum q) \<Rightarrow> ([], case date_of_number q of Some d \<Rightarrow> d | None \<Rightarrow> v)
      | (JoiDate, JStr s) \<Rightarrow>
          ([], if trim_str s = [] then v
               else (case plain_decimal s of
                       Some q \<Rightarrow> (case date_of_number q of Some d \<Rightarrow> d | None \<Rightarrow> v)
                     | None \<Rightarrow> (case Date_parse h s of Some t \<Rightarrow> JDate t | None \<Rightarrow> v)))
      | _ \<Rightarrow> ([], v))"

text \<open>The failures of a defined value against the base type and its rules, by error code.\<close>

definition joi_rules :: "prefs \<Rightarrow> joi_schema \<Rightarrow> jsval \<Rightarrow> string list" where
  "joi_rules p c v =
     (case base c of
        JoiObject \<Rightarrow>
          (case v of JObj ps \<Rightarrow> [] | JObjectId i \<Rightarrow> [] | JDate t \<Rightarrow> [] | _ \<Rightarrow> [''object.base''])
      | JoiString \<Rightarrow>
          (case v of
             JStr s \<Rightarrow>
               if s = [] then [''string.empty'']
               else if trim_enabled c \<and> \<not> convert p \<and> trim_str s \<noteq> s then [''string.trim'']
               else []
           | _ \<Rightarrow> [''string.base''])
      | JoiNumber \<Rightarrow>
          (case v of
             JNum q \<Rightarrow>
               if \<bar>q\<bar> > 9007199254740991 then [''number.unsafe'']
               else (case min_limit c of
                       Some l \<Rightarrow> if q < l then [''number.min''] else []
                     | None \<Rightarrow> [])
                    @ (case max_limit c of
                       Some l \<Rightarrow> if l < q then [''number.max''] else []
                     | None \<Rightarrow> [])
           | JInfinity neg \<Rightarrow> [''number.infinity'']
           | _ \<Rightarrow> [''number.base''])
      | JoiDate \<Rightarrow> (case v of JDate t \<Rightarrow> [] | _ \<Rightarrow> [''date.base'']))"

text \<open>
  One key of an object schema: the failures and the resulting value. A failure of the
  conversion is reported with the value as it was given and ends the check of the key.
  A missing value fails a required key; the default, when there is one, replaces a
  missing value in either case. With \<^verbatim>\<open>abortEarly\<close> the rules stop at the first
  failure.
\<close>

definition validate_child ::
  "host \<Rightarrow> prefs \<Rightarrow> joi_schema \<Rightarrow> string \<Rightarrow> jsval \<Rightarrow> ValidationErrorItem list \<times> jsval" where
  "validate_child h p c k item =
     (let cv = (if convert p then joi_coerce h c item else ([], item));
          v = snd cv
      in if fst cv \<noteq> [] then
           (map (\<lambda>t. \<lparr>err_type = t, ctx_key = k, ctx_value = item\<rparr>) (fst cv), v)
         else if v = JUndefined then
           (if presence_required c
            then [\<lparr>err_type = ''any.required'', ctx_key = k, ctx_value = JUndefined\<rparr>]
            else [],
            case default_value c of Some d \<Rightarrow> d | None \<Rightarrow> JUndefined)
         else
           (let codes = joi_rules p c v
            in (map (\<lambda>t. \<lparr>err_type = t, ctx_key = k, ctx_value = v\<rparr>)
                  (if abortEarly p then take 1 codes else codes),
                v)))"

text \<open>
  The keys of an object schema, in the order of the declaration, on a copy of the data.
  A failing key leaves its (converted) value in the copy and, without \<^verbatim>\<open>abortEarly\<close>,
  the remaining keys are still checked.
\<close>

fun validate_keys ::
  "host \<Rightarrow> prefs \<Rightarrow> (string \<times> joi_schema) list \<Rightarrow> jsobj \<Rightarrow> jsobj \<times> ValidationErrorItem list" where
  "validate_keys h p [] v = (v, [])"
| "validate_keys h p (kc # ks) v =
     (let k = fst kc;
          item = get_prop v k;
          r = validate_child h p (snd kc) k item;
          errs = fst r;
          res = snd r
      in if errs \<noteq> [] then
           (if abortEarly p then (v, errs)
            else (let rest = validate_keys h p ks (if res \<noteq> JUndefined then set_prop k res v else v)
                  in (fst rest, errs @ snd rest)))
         else validate_keys h p ks
                (if res = JUndefined \<and> item \<noteq> JUndefined then delete_prop k v
                 else if res \<noteq> JUndefined then set_prop k res v
                 else v))"

text \<open>
  \<^verbatim>\<open>Joi.object({...}).validate(data, prefs)\<close>: the declared keys first, then one
  \<^verbatim>\<open>object.unknown\<close> failure for each property of the data that the schema does not
  declare. The error is absent when nothing failed.
\<close>

definition Joi_object :: "host \<Rightarrow> (string \<times> joi_schema) list \<Rightarrow> ObjectSchema" where
  "Joi_object h keys data p =
     (let r = validate_keys h p keys data;
          unknown = map (\<lambda>k. \<lparr>err_type = ''object.unknown'', ctx_key = k,
                               ctx_value = get_prop data k\<rparr>)
                      (filter (\<lambda>k. k \<notin> set (map fst keys)) (Object_keys data));
          errs = (if abortEarly p then take 1 (snd r @ unknown) else snd r @ unknown)
      in \<lparr>val = fst r, error = (if errs = [] then None else Some errs)\<rparr>)"

text \<open>
  The schema \<^verbatim>\<open>brandsSchema\<close> of brands.service.ts: its keys in the order of the
  declaration, and the object schema built from them.
\<close>

definition brandsSchema_keys :: "host \<Rightarrow> (string \<times> joi_schema) list" where
  "brandsSchema_keys h =
     [(''_id'', Joi_any JoiObject),
      (''brandName'', joi_trim (joi_required (Joi_any JoiString))),
      (''headquarters'', joi_trim (joi_required (Joi_any JoiString))),
      (''yearFounded'',
         joi_default (JNum 1600)
           (joi_max (of_int (currentYear h)) (joi_min 1600 (joi_required (Joi_any JoiNumber))))),
      (''numberOfLocations'',
         joi_default (JNum 1) (joi_min 1 (joi_required (Joi_any JoiNumber)))),
      (''createdAt'', Joi_any JoiDate),
      (''updatedAt'', Joi_any JoiDate),
      (''__v'', Joi_any JoiNumber)]"

definition brandsSchema :: "host \<Rightarrow> ObjectSchema" where
  "brandsSchema h = Joi_object h (brandsSchema_keys h)"

section \<open>The repair routine of \<^verbatim>\<open>BrandsService\<close>\<close>

text \<open>
  The optional read \<^verbatim>\<open>x?.name\<close>: the \<^verbatim>\<open>name\<close> property of a plain object,
  \<^verbatim>\<open>undefined\<close> for every other value.
\<close>

fun optional_name :: "jsval \<Rightarrow> jsval" where
  "optional_name (JObj ps) = get_prop ps ''name''"
| "optional_name v = JUndefined"

text \<open>
  The callback of \<^verbatim>\<open>validatedBrand.error.details.forEach\<close> in
  \<^verbatim>\<open>updateToConformSchema\<close>: one validation error is handled on the brand object, which is
  changed in place; here the changed object is returned. The four tests are tried in the
  order of the source and each ends with \<^verbatim>\<open>return\<close>. A \<^verbatim>\<open>find\<close> that finds nothing
  returns \<^verbatim>\<open>undefined\<close>, and \<^verbatim>\<open>undefined\<close> used as a property name is the name
  \<^verbatim>\<open>"undefined"\<close>.
\<close>

definition repair_error ::
  "host \<Rightarrow> ValidationResult \<Rightarrow> jsobj \<Rightarrow> ValidationErrorItem \<Rightarrow> jsobj" where
  "repair_error h validatedBrand brand e =
     (let key = ctx_key e; v = ctx_value e
      in if str_includes (toLowerCase key) ''year'' then
           delete_prop key
             (if \<not> isNaN v \<and> truthy v then set_prop ''yearFounded'' (parseInt h v) brand
              else brand)
         else if str_includes (toLowerCase key) ''locations'' then
           delete_prop key
             (if \<not> isNaN v \<and> truthy v then set_prop ''numberOfLocations'' (parseInt h v) brand
              else brand)
         else if str_includes (toLowerCase key) ''hqaddress'' then
           delete_prop key
             (if isNaN v \<and> truthy v then set_prop ''headquarters'' v brand else brand)
         else if str_includes (toLowerCase key) ''brandname'' then
           (let brandKey =
                  (case find (\<lambda>k. str_includes (toLowerCase k) ''brand'')
                          (Object_keys (val validatedBrand)) of
                     None \<Rightarrow> ''undefined''
                   | Some k \<Rightarrow> k)
            in delete_prop brandKey
                 (set_prop ''brandName'' (optional_name (get_prop (val validatedBrand) brandKey))
                    brand))
         else delete_prop key brand)"

text \<open>
  The callback of \<^verbatim>\<open>brands.map\<close>: a brand with validation errors is returned after every
  error has been handled in the order reported; for a brand without errors the callback
  returns nothing (\<^verbatim>\<open>undefined\<close>, here \<open>None\<close>). The schema is the module constant
  \<^verbatim>\<open>brandsSchema\<close> in the source and a parameter here, as is the host.
\<close>

definition repair :: "host \<Rightarrow> ObjectSchema \<Rightarrow> jsobj \<Rightarrow> jsobj option" where
  "repair h Schema brand =
     (let validatedBrand = validate brand Schema
      in case error validatedBrand of
           None \<Rightarrow> None
         | Some details \<Rightarrow> Some (foldl (repair_error h validatedBrand) brand details))"

text \<open>\<^verbatim>\<open>.filter(Boolean)\<close> keeps the objects and drops every \<^verbatim>\<open>undefined\<close>.\<close>

definition updateToConformSchema :: "host \<Rightarrow> ObjectSchema \<Rightarrow> jsobj list \<Rightarrow> jsobj list" where
  "updateToConformSchema h Schema brands = List.map_filter id (map (repair h Schema) brands)"

section \<open>\<^verbatim>\<open>validateAndUpdate\<close>\<close>

text \<open>
  The model of the collection is a parameter: what \<^verbatim>\<open>find().lean().exec()\<close> resolves to
  and the \<^verbatim>\<open>modifiedCount\<close> that \<^verbatim>\<open>bulkWrite\<close> resolves to for given operations, \<open>None\<close>
  when the call rejects. The result of \<^verbatim>\<open>validateAndUpdate\<close> is the response or the
  exception thrown, together with the argument of every \<^verbatim>\<open>bulkWrite\<close> call issued.
\<close>

datatype bulk_op = ReplaceOne (filter_id: jsval) (replacement: jsobj)

record BrandModel =
  find_exec :: "jsobj list option"
  bulkWrite :: "bulk_op list \<Rightarrow> nat option"

datatype http_exception = InternalServerErrorException

record response =
  statusCode :: nat
  message :: string

fun show_nat :: "nat \<Rightarrow> string" where
  "show_nat n =
     (if n < 10 then [char_of (48 + n)] else show_nat (n div 10) @ [char_of (48 + n mod 10)])"

declare show_nat.simps [simp del]

text \<open>\<^verbatim>\<open>const { _id, ...updates } = brand\<close> and the operation built from the two.\<close>

definition replace_op :: "jsobj \<Rightarrow> bulk_op" where
  "replace_op brand = ReplaceOne (get_prop brand ''_id'') (delete_prop ''_id'' brand)"

definition validateAndUpdate ::
  "host \<Rightarrow> ObjectSchema \<Rightarrow> BrandModel \<Rightarrow> (http_exception + response) \<times> bulk_op list list" where
  "validateAndUpdate h Schema brandModel =
     (case find_exec brandModel of
        None \<Rightarrow> (Inl InternalServerErrorException, [])
      | Some brands \<Rightarrow>
          (let updatedBrands = updateToConformSchema h Schema brands
           in if length updatedBrands = 0 then
                (Inr \<lparr>statusCode = 200,
                      message = ''All brand data is already correct. No updates needed.''\<rparr>, [])
              else
                (let updatedBrands' = map (\<lambda>brand. val (validate brand Schema)) updatedBrands;
                     bulkOps = map replace_op updatedBrands'
                 in case bulkWrite brandModel bulkOps of
                      None \<Rightarrow> (Inl InternalServerErrorException, [bulkOps])
                    | Some modifiedCount \<Rightarrow>
                        (Inr \<lparr>statusCode = 200,
                              message = show_nat modifiedCount @ '' brands updated successfully.''\<rparr>,
                         [bulkOps]))))"

section \<open>Seed data\<close>

text \<open>
  The Faker library is a dependency; its generators are parameters. A generator reads and
  advances the state of the random source, and \<^verbatim>\<open>faker.seed(n)\<close> replaces that state by
  one that depends on \<^verbatim>\<open>n\<close> alone. The year that bounds \<^verbatim>\<open>yearFounded\<close> is read from
  the clock in every iteration: the clock is a parameter that gives, for the index of an
  iteration, the year read in it.
\<close>

record 'st Faker =
  seed :: "int \<Rightarrow> 'st"
  company_name :: "'st \<Rightarrow> string \<times> 'st"
  number_int :: "int \<Rightarrow> int \<Rightarrow> 'st \<Rightarrow> int \<times> 'st"
  location_city :: "'st \<Rightarrow> string \<times> 'st"

record Brand =
  brandName :: string
  yearFounded :: int
  headquarters :: string
  numberOfLocations :: int

text \<open>The body of the loop of \<^verbatim>\<open>generateBrandsData\<close> for index \<open>i\<close>.\<close>

definition generate_brand :: "'st Faker \<Rightarrow> (nat \<Rightarrow> int) \<Rightarrow> nat \<Rightarrow> Brand \<times> 'st" where
  "generate_brand faker getFullYear i =
     (let s0 = seed faker (100 + int i);
          n = company_name faker s0;
          y = number_int faker 1600 (getFullYear i) (snd n);
          c = location_city faker (snd y);
          l = number_int faker 1 100 (snd c)
      in (\<lparr>brandName = fst n, yearFounded = fst y, headquarters = fst c,
           numberOfLocations = fst l\<rparr>, snd l))"

function generate_loop ::
  "'st Faker \<Rightarrow> (nat \<Rightarrow> int) \<Rightarrow> nat \<Rightarrow> nat \<Rightarrow> Brand list \<Rightarrow> 'st \<Rightarrow> Brand list \<times> 'st" where
  "generate_loop faker getFullYear numberOfBrands i brandData st =
     (if i < numberOfBrands then
        (let b = generate_brand faker getFullYear i
         in generate_loop faker getFullYear numberOfBrands (Suc i) (brandData @ [fst b]) (snd b))
      else (brandData, st))"
  by pat_completeness auto
termination
  by (relation
       "measure (\<lambda>(faker, getFullYear, numberOfBrands, i, brandData, st). numberOfBrands - i)")
     auto

declare generate_loop.simps [simp del]

definition generateBrandsData ::
  "'st Faker \<Rightarrow> (nat \<Rightarrow> int) \<Rightarrow> nat \<Rightarrow> 'st \<Rightarrow> Brand list \<times> 'st" where
  "generateBrandsData faker getFullYear numberOfBrands st =
     generate_loop faker getFullYear numberOfBrands 0 [] st"

text \<open>
  \<^verbatim>\<open>seedData\<close>: the response or the exception, the argument of every \<^verbatim>\<open>insertMany\<close>
  call, and the state of the random source afterwards. \<^verbatim>\<open>insertMany\<close> is a parameter,
  \<open>None\<close> when it rejects. The export to a spreadsheet is left out.
\<close>

record 'd seed_response =
  seed_statusCode :: nat
  seed_message :: string
  seed_brands :: 'd

definition seedData ::
  "'st Faker \<Rightarrow> (nat \<Rightarrow> int) \<Rightarrow> (Brand list \<Rightarrow> 'd option) \<Rightarrow> 'st
     \<Rightarrow> ((http_exception + 'd seed_response) \<times> Brand list list) \<times> 'st" where
  "seedData faker getFullYear insertMany st =
     (let g = generateBrandsData faker getFullYear 10 st;
          brandData = fst g
      in (case insertMany brandData of
            None \<Rightarrow> (Inl InternalServerErrorException, [brandData])
          | Some docs \<Rightarrow>
              (Inr \<lparr>seed_statusCode = 201,
                    seed_message = ''Generated data inserted successfully'', seed_brands = docs\<rparr>,
               [brandData]),
          snd g))"

section \<open>The classification of the specification\<close>

text \<open>
  Section 4.2 of the specification names the tests of the error handler: the field name
  is lower-cased and the first anchor it contains decides the category.
\<close>

datatype Category = Year | Locations | Headquarters | BrandName | Unknown

definition classify :: "string \<Rightarrow> Category" where
  "classify fieldName =
     (let n = toLowerCase fieldName
      in if str_includes n ''year'' then Year
         else if str_includes n ''locations'' then Locations
         else if str_includes n ''hqaddress'' then Headquarters
         else if str_includes n ''brandname'' then BrandName
         else Unknown)"

text \<open>
  \<^verbatim>\<open>String.prototype.toUpperCase\<close> on the ASCII letters, to state that the
  classification does not depend on the case of the letters.
\<close>

definition upper_char :: "char \<Rightarrow> char" where
  "upper_char c =
     (let n = (of_char c :: nat) in if 97 \<le> n \<and> n \<le> 122 then char_of (n - 32) else c)"

definition toUpperCase :: "string \<Rightarrow> string" where
  "toUpperCase s = map upper_char s"

section \<open>Example data\<close>

text \<open>
  A host whose clock reads 2024. The examples hold no date string, no decimal literal
  that is not exact and no number beyond the exact range, so what this host answers in
  those cases is never asked.
\<close>

definition host_2024 :: host where
  "host_2024 =
     \<lparr>currentYear = 2024, Date_parse = (\<lambda>s. None), Number_toString = (\<lambda>q. ''NaN''),
      Number_of_integer = (\<lambda>n. JNaN), inexact_decimal = (\<lambda>s. (False, JNaN))\<rparr>"

text \<open>
  A random source for the examples: its state is a counter that every draw advances,
  and \<^verbatim>\<open>number.int\<close> counts down from the upper bound.
\<close>

definition countdown_faker :: "int Faker" where
  "countdown_faker =
     \<lparr>seed = (\<lambda>n. n),
      company_name = (\<lambda>st. (''Acme'', st + 1)),
      number_int = (\<lambda>lo hi st. (hi - st mod (hi - lo + 1), st + 1)),
      location_city = (\<lambda>st. (''NYC'', st + 1))\<rparr>"

definition oid1 :: jsval where
  "oid1 = JObjectId ''65f1a0b2c3d4e5f601234567''"

text \<open>A brand that conforms to the schema.\<close>

definition acme_conformant :: jsobj where
  "acme_conformant =
     [(''_id'', oid1), (''brandName'', JStr ''Acme''), (''yearFounded'', JNum 1950),
      (''headquarters'', JStr ''NYC''), (''numberOfLocations'', JNum 5)]"

text \<open>The brand of the end-to-end example: the year is stored as a string.\<close>

definition acme_string_year :: jsobj where
  "acme_string_year =
     [(''_id'', oid1), (''brandName'', JStr ''Acme''), (''yearFounded'', JStr ''1950''),
      (''headquarters'', JStr ''NYC''), (''numberOfLocations'', JNum 5)]"

text \<open>The same brand with the number 1 as its identifier, which is not an ObjectId.\<close>

definition acme_numeric_id :: jsobj where
  "acme_numeric_id =
     [(''_id'', JNum 1), (''brandName'', JStr ''Acme''), (''yearFounded'', JStr ''1950''),
      (''headquarters'', JStr ''NYC''), (''numberOfLocations'', JNum 5)]"

text \<open>The same brand with one more property, which the schema does not declare.\<close>

definition acme_string_year_notes :: jsobj where
  "acme_string_year_notes = acme_string_year @ [(''notes'', JStr ''x'')]"

text \<open>A brand without a name.\<close>

definition acme_no_name :: jsobj where
  "acme_no_name =
     [(''_id'', oid1), (''yearFounded'', JNum 1950), (''headquarters'', JStr ''NYC''),
      (''numberOfLocations'', JNum 5)]"

text \<open>A brand whose year is under another key and too early.\<close>

definition acme_year_alias :: jsobj where
  "acme_year_alias =
     [(''_id'', oid1), (''brandName'', JStr ''Acme''), (''yearCreated'', JStr ''1500''),
      (''headquarters'', JStr ''NYC''), (''numberOfLocations'', JNum 5)]"

text \<open>A brand whose name is nested in a \<^verbatim>\<open>brand\<close> object.\<close>

definition acme_nested_brand :: jsobj where
  "acme_nested_brand =
     [(''_id'', oid1), (''brand'', JObj [(''name'', JStr ''Acme'')]), (''yearFounded'', JNum 1950),
      (''headquarters'', JStr ''NYC''), (''numberOfLocations'', JNum 5)]"

text \<open>A collection whose \<^verbatim>\<open>bulkWrite\<close> reports every operation as a modification.\<close>

definition model_of :: "jsobj list \<Rightarrow> BrandModel" where
  "model_of docs = \<lparr>find_exec = Some docs, bulkWrite = (\<lambda>ops. Some (length ops))\<rparr>"


definition name_required_error :: ValidationErrorItem where
  "name_required_error =
     \<lparr>err_type = ''any.required'', ctx_key = ''brandName'', ctx_value = JUndefined\<rparr>"

text \<open>
  A brand with five defects: a name that is a number, no headquarters, a year that is a
  padded, signed string in exponent notation and too early, a number of locations that
  is a negative decimal string, and a property that the schema does not declare.
\<close>

definition multi_error_brand :: jsobj where
  "multi_error_brand =
     [(''_id'', oid1), (''brandName'', JNum 5), (''yearFounded'', JStr '' +1.5e3 ''),
      (''numberOfLocations'', JStr ''-2.50''), (''notes'', JStr ''x'')]"

text \<open>
  A brand of a legacy shape: the headquarters under a key in capitals, and a property
  that no anchor matches. The two errors are those that the validator reports for them.
\<close>

definition acme_capitals :: jsobj where
  "acme_capitals =
     [(''_id'', oid1), (''brandName'', JStr ''Acme''), (''yearFounded'', JNum 1950),
      (''HQADDRESS'', JStr ''NYC''), (''numberOfLocations'', JNum 5), (''Notes'', JStr ''x'')]"

definition hq_capitals_error :: ValidationErrorItem where
  "hq_capitals_error =
     \<lparr>err_type = ''object.unknown'', ctx_key = ''HQADDRESS'', ctx_value = JStr ''NYC''\<rparr>"

definition notes_error :: ValidationErrorItem where
  "notes_error =
     \<lparr>err_type = ''object.unknown'', ctx_key = ''Notes'', ctx_value = JStr ''x''\<rparr>"

section \<open>Properties of objects and of numeric strings\<close>

lemma delete_prop_idem: "delete_prop k (delete_prop k b) = delete_prop k b"
  by (simp add: delete_prop_def)

lemma delete_set_same: "delete_prop k (set_prop k v b) = delete_prop k b"
  by (induction b) (auto simp: delete_prop_def)

lemma set_prop_idem: "set_prop k v (set_prop k v b) = set_prop k v b"
  by (induction b) auto

lemma set_delete_commute:
  "k \<noteq> k' \<Longrightarrow> set_prop k v (delete_prop k' b) = delete_prop k' (set_prop k v b)"
  by (induction b) (auto simp: delete_prop_def)

lemma keys_delete: "k \<notin> set (Object_keys (delete_prop k b))"
  by (auto simp: Object_keys_def delete_prop_def)




lemma get_set_other: "k \<noteq> k' \<Longrightarrow> get_prop (set_prop k' v b) k = get_prop b k"
  by (induction b) (auto simp: get_prop_def)

lemma get_delete_other: "k \<noteq> k' \<Longrightarrow> get_prop (delete_prop k' b) k = get_prop b k"
  by (induction b) (auto simp: get_prop_def delete_prop_def)


lemma delete_set_twice:
  "delete_prop k (set_prop k' v (delete_prop k (set_prop k' v b))) =
   delete_prop k (set_prop k' v b)"
proof (cases "k' = k")
  case True
  then show ?thesis by (simp add: delete_set_same delete_prop_idem)
next
  case False
  then show ?thesis by (simp add: set_delete_commute set_prop_idem delete_prop_idem)
qed

text \<open>\<open>str_includes\<close> is containment of a contiguous substring.\<close>

lemma take_is_prefix: "(take (length pat) s = pat) = (\<exists>w. s = pat @ w)"
  by (metis append_eq_conv_conj append_take_drop_id)

lemma str_includes_iff: "str_includes s pat = (\<exists>u w. s = u @ pat @ w)"
proof (induction s)
  case Nil
  then show ?case by auto
next
  case (Cons c s)
  have "(\<exists>u w. c # s = u @ pat @ w) = ((\<exists>w. c # s = pat @ w) \<or> (\<exists>u w. s = u @ pat @ w))"
  proof
    assume "\<exists>u w. c # s = u @ pat @ w"
    then obtain u w where e: "c # s = u @ pat @ w" by blast
    show "(\<exists>w. c # s = pat @ w) \<or> (\<exists>u w. s = u @ pat @ w)"
    proof (cases u)
      case Nil
      with e show ?thesis by auto
    next
      case (Cons a u')
      with e have "s = u' @ pat @ w" by simp
      then show ?thesis by blast
    qed
  next
    assume "(\<exists>w. c # s = pat @ w) \<or> (\<exists>u w. s = u @ pat @ w)"
    then show "\<exists>u w. c # s = u @ pat @ w"
    proof
      assume "\<exists>w. c # s = pat @ w"
      then obtain w where "c # s = [] @ pat @ w" by auto
      then show ?thesis by blast
    next
      assume "\<exists>u w. s = u @ pat @ w"
      then obtain u w where "c # s = (c # u) @ pat @ w" by auto
      then show ?thesis by blast
    qed
  qed
  then show ?case
    using Cons.IH take_is_prefix [of pat "c # s"] by simp
qed




lemma digits_strip_sign: "s \<noteq> [] \<Longrightarrow> list_all is_digit s \<Longrightarrow> strip_sign s = (False, s)"
  by (cases s) (auto simp: is_digit_def)

lemma digits_takeWhile: "list_all is_digit s \<Longrightarrow> takeWhile is_digit s = s"
  by (simp add: list_all_iff)

lemma digits_dropWhile: "list_all is_digit s \<Longrightarrow> dropWhile is_digit s = []"
  by (simp add: list_all_iff)

lemma digits_parts:
  "s \<noteq> [] \<Longrightarrow> list_all is_digit s \<Longrightarrow> decimal_parts s = Some (s, 0)"
  by (simp add: decimal_parts_def digits_takeWhile digits_dropWhile exponent_part_def)




lemma digits_exact:
  "s \<noteq> [] \<Longrightarrow> list_all is_digit s \<Longrightarrow> digits_val s \<le> 9007199254740991 \<Longrightarrow> exact_decimal s"
  by (simp add: exact_decimal_def digits_strip_sign digits_parts pow10_def)






text \<open>Lower-casing undoes upper-casing, so the two cases of a letter are not told apart.\<close>

lemma lower_upper: "lower_char (upper_char c) = lower_char c"
  by (auto simp: lower_char_def upper_char_def Let_def)

lemma lower_lower: "lower_char (lower_char c) = lower_char c"
  by (auto simp: lower_char_def Let_def)

lemma toLowerCase_toUpperCase: "toLowerCase (toUpperCase s) = toLowerCase s"
  by (simp add: toLowerCase_def toUpperCase_def lower_upper)

lemma toLowerCase_idem: "toLowerCase (toLowerCase s) = toLowerCase s"
  by (simp add: toLowerCase_def lower_lower)

section \<open>The repair pass keeps the invalid brands only\<close>

lemma updateToConformSchema_filter:
  "updateToConformSchema h Schema brands =
     map (\<lambda>b. foldl (repair_error h (validate b Schema)) b (the (error (validate b Schema))))
       (filter (\<lambda>b. error (validate b Schema) \<noteq> None) brands)"
  by (induction brands)
     (auto simp: updateToConformSchema_def repair_def Let_def List.map_filter_simps
           split: option.splits)

text \<open>
  Claim C1 says that a brand which validates is returned unchanged in the output of
  \<^verbatim>\<open>updateToConformSchema\<close>. It is not: the conformant brand validates without an
  error and the output for the batch that holds just this brand does not contain it.
\<close>

theorem valid_brand_dropped_counterexample:
  "error (validate acme_conformant (brandsSchema host_2024)) = None \<and>
   acme_conformant \<notin>
     set (updateToConformSchema host_2024 (brandsSchema host_2024) [acme_conformant])"
  by code_simp

text \<open>
  Claim C1, amended: the output of \<^verbatim>\<open>updateToConformSchema\<close> holds, in the order of the
  batch, the repaired form of each brand that failed validation and nothing else; a
  brand that validates is left out, as the comment on \<^verbatim>\<open>.filter(Boolean)\<close> says.
\<close>

theorem updateToConformSchema_only_invalid:
  "updateToConformSchema h Schema brands =
     map (\<lambda>b. foldl (repair_error h (validate b Schema)) b (the (error (validate b Schema))))
       (filter (\<lambda>b. error (validate b Schema) \<noteq> None) brands)"
  by (rule updateToConformSchema_filter)

theorem updateToConformSchema_only_invalid_witness:
  "updateToConformSchema host_2024 (brandsSchema host_2024) [acme_conformant, acme_no_name] =
     [[(''_id'', oid1), (''yearFounded'', JNum 1950), (''headquarters'', JStr ''NYC''),
       (''numberOfLocations'', JNum 5), (''brandName'', JUndefined)]]"
proof -
  have a: "error (validate acme_conformant (brandsSchema host_2024)) = None"
    by code_simp
  have b: "error (validate acme_no_name (brandsSchema host_2024)) = Some [name_required_error]"
    by code_simp
  have c: "repair_error host_2024 (validate acme_no_name (brandsSchema host_2024)) acme_no_name
             name_required_error =
           [(''_id'', oid1), (''yearFounded'', JNum 1950), (''headquarters'', JStr ''NYC''),
            (''numberOfLocations'', JNum 5), (''brandName'', JUndefined)]"
    by code_simp
  show ?thesis
    using updateToConformSchema_only_invalid
      [where h = host_2024 and Schema = "brandsSchema host_2024"
         and brands = "[acme_conformant, acme_no_name]"]
    by (simp add: a b c)
qed

section \<open>The end-to-end example\<close>

lemma string_year_is_valid:
  "validate acme_string_year (brandsSchema host_2024) =
     \<lparr>val = [(''_id'', oid1), (''brandName'', JStr ''Acme''), (''yearFounded'', JNum 1950),
             (''headquarters'', JStr ''NYC''), (''numberOfLocations'', JNum 5)],
      error = None\<rparr>"
  by code_simp

lemma string_year_not_repaired:
  "updateToConformSchema host_2024 (brandsSchema host_2024) [acme_string_year] = []"
  by code_simp

text \<open>
  Claim C2 expects, for the batch that holds the one brand whose \<^verbatim>\<open>yearFounded\<close> is the
  string \<^verbatim>\<open>"1950"\<close>, a written brand with the number 1950 and one change reported. The
  code converts the string while validating, finds no error, repairs nothing and answers
  that no update is needed; no \<^verbatim>\<open>bulkWrite\<close> call is issued, whatever the collection
  would have answered.
\<close>

theorem validateAndUpdate_string_year_no_update:
  "validateAndUpdate host_2024 (brandsSchema host_2024)
     \<lparr>find_exec = Some [acme_string_year], bulkWrite = bw\<rparr> =
   (Inr \<lparr>statusCode = 200,
         message = ''All brand data is already correct. No updates needed.''\<rparr>, [])"
  by (simp add: validateAndUpdate_def string_year_not_repaired)

text \<open>
  The sibling path: the same brand with one undeclared property fails validation, and
  then the second validation converts the year, so the number 1950 is written.
\<close>

lemma string_year_with_notes_written:
  "validateAndUpdate host_2024 (brandsSchema host_2024) (model_of [acme_string_year_notes]) =
   (Inr \<lparr>statusCode = 200, message = ''1 brands updated successfully.''\<rparr>,
    [[ReplaceOne oid1
        [(''brandName'', JStr ''Acme''), (''yearFounded'', JNum 1950),
         (''headquarters'', JStr ''NYC''), (''numberOfLocations'', JNum 5)]]])"
  by code_simp

text \<open>
  With the number 1 as identifier, which the parameter type of
  \<^verbatim>\<open>updateToConformSchema\<close> excludes, the identifier itself fails validation and is
  deleted: the year is written as a number, in a replacement whose filter has no
  identifier.
\<close>

lemma numeric_id_written_without_id:
  "validateAndUpdate host_2024 (brandsSchema host_2024) (model_of [acme_numeric_id]) =
   (Inr \<lparr>statusCode = 200, message = ''1 brands updated successfully.''\<rparr>,
    [[ReplaceOne JUndefined
        [(''brandName'', JStr ''Acme''), (''yearFounded'', JNum 1950),
         (''headquarters'', JStr ''NYC''), (''numberOfLocations'', JNum 5)]]])"
  by code_simp

section \<open>What is handed to \<^verbatim>\<open>bulkWrite\<close>\<close>

text \<open>
  Claim C3 says that every brand handed to \<^verbatim>\<open>bulkWrite\<close> validates and that a brand
  which fails the second validation is not written. For the brand without a name the
  repair sets \<^verbatim>\<open>brandName\<close> to \<^verbatim>\<open>undefined\<close>; the repaired brand fails the second
  validation, and still its value is written; the replacement fails validation too.
\<close>

theorem second_validation_ignored_counterexample:
  "updateToConformSchema host_2024 (brandsSchema host_2024) [acme_no_name] =
     [[(''_id'', oid1), (''yearFounded'', JNum 1950), (''headquarters'', JStr ''NYC''),
       (''numberOfLocations'', JNum 5), (''brandName'', JUndefined)]] \<and>
   error (validate
            [(''_id'', oid1), (''yearFounded'', JNum 1950), (''headquarters'', JStr ''NYC''),
             (''numberOfLocations'', JNum 5), (''brandName'', JUndefined)]
            (brandsSchema host_2024)) \<noteq> None \<and>
   snd (validateAndUpdate host_2024 (brandsSchema host_2024) (model_of [acme_no_name])) =
     [[ReplaceOne oid1
         [(''yearFounded'', JNum 1950), (''headquarters'', JStr ''NYC''),
          (''numberOfLocations'', JNum 5), (''brandName'', JUndefined)]]] \<and>
   error (validate
            [(''yearFounded'', JNum 1950), (''headquarters'', JStr ''NYC''),
             (''numberOfLocations'', JNum 5), (''brandName'', JUndefined)]
            (brandsSchema host_2024)) \<noteq> None"
  by code_simp

text \<open>
  Claim C3, amended: when the repair pass returns brands, \<^verbatim>\<open>validateAndUpdate\<close> issues one
  \<^verbatim>\<open>bulkWrite\<close> call with one replacement for each repaired brand, built from the value
  that the second validation returns; the error of the second validation is not read.
  So as many brands are written as failed the first validation.
\<close>

theorem bulk_write_of_every_repaired_brand:
  "find_exec m = Some brands \<Longrightarrow> updateToConformSchema h S brands \<noteq> [] \<Longrightarrow>
   snd (validateAndUpdate h S m) =
     [map (\<lambda>b. replace_op (val (validate b S))) (updateToConformSchema h S brands)] \<and>
   length (hd (snd (validateAndUpdate h S m))) =
     length (filter (\<lambda>b. error (validate b S) \<noteq> None) brands)"
  by (auto simp: validateAndUpdate_def Let_def updateToConformSchema_filter split: option.splits)

theorem bulk_write_of_every_repaired_brand_witness:
  "find_exec (model_of [acme_conformant, acme_nested_brand]) =
     Some [acme_conformant, acme_nested_brand] \<and>
   updateToConformSchema host_2024 (brandsSchema host_2024)
     [acme_conformant, acme_nested_brand] \<noteq> [] \<and>
   length (hd (snd (validateAndUpdate host_2024 (brandsSchema host_2024)
                      (model_of [acme_conformant, acme_nested_brand])))) = 1"
proof -
  have f: "find_exec (model_of [acme_conformant, acme_nested_brand]) =
             Some [acme_conformant, acme_nested_brand]"
    by (simp add: model_of_def)
  have n: "updateToConformSchema host_2024 (brandsSchema host_2024)
             [acme_conformant, acme_nested_brand] \<noteq> []"
    by code_simp
  have a: "error (validate acme_conformant (brandsSchema host_2024)) = None"
    by code_simp
  have b: "error (validate acme_nested_brand (brandsSchema host_2024)) \<noteq> None"
    by code_simp
  from bulk_write_of_every_repaired_brand [OF f n]
  have l: "length (hd (snd (validateAndUpdate host_2024 (brandsSchema host_2024)
                              (model_of [acme_conformant, acme_nested_brand])))) =
           length (filter (\<lambda>b. error (validate b (brandsSchema host_2024)) \<noteq> None)
                     [acme_conformant, acme_nested_brand])"
    by (rule conjunct2)
  have len: "length (hd (snd (validateAndUpdate host_2024 (brandsSchema host_2024)
                                (model_of [acme_conformant, acme_nested_brand])))) = 1"
    unfolding l by (simp add: a b del: not_None_eq)
  show ?thesis
    using f n len by blast
qed

section \<open>The handling of one validation error\<close>



text \<open>
  Claim C5: the category of an error depends on its key alone. It is the first of the
  anchors \<^verbatim>\<open>year\<close>, \<^verbatim>\<open>locations\<close>, \<^verbatim>\<open>hqaddress\<close>, \<^verbatim>\<open>brandname\<close> that occurs as a
  substring of the lower-cased key, and Unknown when none occurs; a key in capitals has
  the category of the same key in small letters. The handler treats the error by that
  category, and for Unknown it deletes the key and does nothing else: the key is absent
  afterwards and every other property is as it was, in the same order.
\<close>

theorem field_classification:
  "((classify k = Year) = (\<exists>u w. toLowerCase k = u @ ''year'' @ w)) \<and>
   ((classify k = Locations) =
      ((\<nexists>u w. toLowerCase k = u @ ''year'' @ w) \<and>
       (\<exists>u w. toLowerCase k = u @ ''locations'' @ w))) \<and>
   ((classify k = Headquarters) =
      ((\<nexists>u w. toLowerCase k = u @ ''year'' @ w) \<and>
       (\<nexists>u w. toLowerCase k = u @ ''locations'' @ w) \<and>
       (\<exists>u w. toLowerCase k = u @ ''hqaddress'' @ w))) \<and>
   ((classify k = BrandName) =
      ((\<nexists>u w. toLowerCase k = u @ ''year'' @ w) \<and>
       (\<nexists>u w. toLowerCase k = u @ ''locations'' @ w) \<and>
       (\<nexists>u w. toLowerCase k = u @ ''hqaddress'' @ w) \<and>
       (\<exists>u w. toLowerCase k = u @ ''brandname'' @ w))) \<and>
   ((classify k = Unknown) =
      ((\<nexists>u w. toLowerCase k = u @ ''year'' @ w) \<and>
       (\<nexists>u w. toLowerCase k = u @ ''locations'' @ w) \<and>
       (\<nexists>u w. toLowerCase k = u @ ''hqaddress'' @ w) \<and>
       (\<nexists>u w. toLowerCase k = u @ ''brandname'' @ w))) \<and>
   classify (toUpperCase k) = classify k \<and>
   classify (toLowerCase k) = classify k \<and>
   repair_error h vb brand e =
     (case classify (ctx_key e) of
        Year \<Rightarrow>
          delete_prop (ctx_key e)
            (if \<not> isNaN (ctx_value e) \<and> truthy (ctx_value e)
             then set_prop ''yearFounded'' (parseInt h (ctx_value e)) brand else brand)
      | Locations \<Rightarrow>
          delete_prop (ctx_key e)
            (if \<not> isNaN (ctx_value e) \<and> truthy (ctx_value e)
             then set_prop ''numberOfLocations'' (parseInt h (ctx_value e)) brand else brand)
      | Headquarters \<Rightarrow>
          delete_prop (ctx_key e)
            (if isNaN (ctx_value e) \<and> truthy (ctx_value e)
             then set_prop ''headquarters'' (ctx_value e) brand else brand)
      | BrandName \<Rightarrow>
          (let brandKey =
                 (case find (\<lambda>k. str_includes (toLowerCase k) ''brand'')
                         (Object_keys (val vb)) of
                    None \<Rightarrow> ''undefined'' | Some k \<Rightarrow> k)
           in delete_prop brandKey
                (set_prop ''brandName'' (optional_name (get_prop (val vb) brandKey)) brand))
      | Unknown \<Rightarrow> delete_prop (ctx_key e) brand) \<and>
   (classify (ctx_key e) = Unknown \<longrightarrow>
      repair_error h vb brand e = filter (\<lambda>p. fst p \<noteq> ctx_key e) brand \<and>
      ctx_key e \<notin> set (Object_keys (repair_error h vb brand e)) \<and>
      (\<forall>k'. k' \<noteq> ctx_key e \<longrightarrow>
         get_prop (repair_error h vb brand e) k' = get_prop brand k'))"
proof -
  have year: "(classify k = Year) = (\<exists>u w. toLowerCase k = u @ ''year'' @ w)"
    by (simp add: classify_def Let_def str_includes_iff)
  have locations: "(classify k = Locations) =
      ((\<nexists>u w. toLowerCase k = u @ ''year'' @ w) \<and>
       (\<exists>u w. toLowerCase k = u @ ''locations'' @ w))"
    by (simp add: classify_def Let_def str_includes_iff)
  have headquarters: "(classify k = Headquarters) =
      ((\<nexists>u w. toLowerCase k = u @ ''year'' @ w) \<and>
       (\<nexists>u w. toLowerCase k = u @ ''locations'' @ w) \<and>
       (\<exists>u w. toLowerCase k = u @ ''hqaddress'' @ w))"
    by (simp add: classify_def Let_def str_includes_iff)
  have brandname: "(classify k = BrandName) =
      ((\<nexists>u w. toLowerCase k = u @ ''year'' @ w) \<and>
       (\<nexists>u w. toLowerCase k = u @ ''locations'' @ w) \<and>
       (\<nexists>u w. toLowerCase k = u @ ''hqaddress'' @ w) \<and>
       (\<exists>u w. toLowerCase k = u @ ''brandname'' @ w))"
    by (simp add: classify_def Let_def str_includes_iff)
  have unknown: "(classify k = Unknown) =
      ((\<nexists>u w. toLowerCase k = u @ ''year'' @ w) \<and>
       (\<nexists>u w. toLowerCase k = u @ ''locations'' @ w) \<and>
       (\<nexists>u w. toLowerCase k = u @ ''hqaddress'' @ w) \<and>
       (\<nexists>u w. toLowerCase k = u @ ''brandname'' @ w))"
    by (simp add: classify_def Let_def str_includes_iff)
  have upper: "classify (toUpperCase k) = classify k"
    by (simp add: classify_def toLowerCase_toUpperCase)
  have lower: "classify (toLowerCase k) = classify k"
    by (simp add: classify_def toLowerCase_idem)
  have dispatch: "repair_error h vb brand e =
     (case classify (ctx_key e) of
        Year \<Rightarrow>
          delete_prop (ctx_key e)
            (if \<not> isNaN (ctx_value e) \<and> truthy (ctx_value e)
             then set_prop ''yearFounded'' (parseInt h (ctx_value e)) brand else brand)
      | Locations \<Rightarrow>
          delete_prop (ctx_key e)
            (if \<not> isNaN (ctx_value e) \<and> truthy (ctx_value e)
             then set_prop ''numberOfLocations'' (parseInt h (ctx_value e)) brand else brand)
      | Headquarters \<Rightarrow>
          delete_prop (ctx_key e)
            (if isNaN (ctx_value e) \<and> truthy (ctx_value e)
             then set_prop ''headquarters'' (ctx_value e) brand else brand)
      | BrandName \<Rightarrow>
          (let brandKey =
                 (case find (\<lambda>k. str_includes (toLowerCase k) ''brand'')
                         (Object_keys (val vb)) of
                    None \<Rightarrow> ''undefined'' | Some k \<Rightarrow> k)
           in delete_prop brandKey
                (set_prop ''brandName'' (optional_name (get_prop (val vb) brandKey)) brand))
      | Unknown \<Rightarrow> delete_prop (ctx_key e) brand)"
    by (simp add: repair_error_def classify_def Let_def)
  have deleted: "repair_error h vb brand e = filter (\<lambda>p. fst p \<noteq> ctx_key e) brand \<and>
      ctx_key e \<notin> set (Object_keys (repair_error h vb brand e)) \<and>
      (\<forall>k'. k' \<noteq> ctx_key e \<longrightarrow>
         get_prop (repair_error h vb brand e) k' = get_prop brand k')"
    if u: "classify (ctx_key e) = Unknown"
  proof -
    have r: "repair_error h vb brand e = delete_prop (ctx_key e) brand"
      unfolding dispatch by (simp add: u)
    show ?thesis
      unfolding r using keys_delete [of "ctx_key e" brand]
      by (simp add: get_delete_other) (simp add: delete_prop_def)
  qed
  show ?thesis
    using year locations headquarters brandname unknown upper lower dispatch deleted
    by blast
qed

theorem field_classification_witness:
  "error (validate acme_capitals (brandsSchema host_2024)) =
     Some [\<lparr>err_type = ''any.required'', ctx_key = ''headquarters'', ctx_value = JUndefined\<rparr>,
           hq_capitals_error, notes_error] \<and>
   classify ''HQADDRESS'' = Headquarters \<and>
   classify (ctx_key notes_error) = Unknown \<and>
   repair_error host_2024 (validate acme_capitals (brandsSchema host_2024)) acme_capitals
     notes_error =
     [(''_id'', oid1), (''brandName'', JStr ''Acme''), (''yearFounded'', JNum 1950),
      (''HQADDRESS'', JStr ''NYC''), (''numberOfLocations'', JNum 5)]"
proof -
  have r: "error (validate acme_capitals (brandsSchema host_2024)) =
     Some [\<lparr>err_type = ''any.required'', ctx_key = ''headquarters'', ctx_value = JUndefined\<rparr>,
           hq_capitals_error, notes_error]"
    by code_simp
  have c: "toUpperCase ''hqaddress'' = ''HQADDRESS'' \<and> classify ''hqaddress'' = Headquarters"
    by code_simp
  have u: "classify (ctx_key notes_error) = Unknown"
    by code_simp
  have f: "filter (\<lambda>p. fst p \<noteq> ctx_key notes_error) acme_capitals =
     [(''_id'', oid1), (''brandName'', JStr ''Acme''), (''yearFounded'', JNum 1950),
      (''HQADDRESS'', JStr ''NYC''), (''numberOfLocations'', JNum 5)]"
    by code_simp
  from field_classification
    [where k = "''hqaddress''" and e = notes_error and h = host_2024
       and vb = "validate acme_capitals (brandsSchema host_2024)" and brand = acme_capitals]
  have "classify (toUpperCase ''hqaddress'') = classify ''hqaddress'' \<and>
        (classify (ctx_key notes_error) = Unknown \<longrightarrow>
           repair_error host_2024 (validate acme_capitals (brandsSchema host_2024)) acme_capitals
             notes_error = filter (\<lambda>p. fst p \<noteq> ctx_key notes_error) acme_capitals)"
    by blast
  then show ?thesis
    using r c u f by simp
qed




section \<open>Repairing twice\<close>

text \<open>
  Claim C7 says that repairing an already repaired brand returns it unchanged. For the
  brand whose year 1500 is stored under \<^verbatim>\<open>yearCreated\<close>, the first pass moves the number
  to \<^verbatim>\<open>yearFounded\<close>; the second pass finds it below the minimum and deletes it.
\<close>

theorem repair_not_idempotent_counterexample:
  "updateToConformSchema host_2024 (brandsSchema host_2024)
     (updateToConformSchema host_2024 (brandsSchema host_2024) [acme_year_alias])
   \<noteq> updateToConformSchema host_2024 (brandsSchema host_2024) [acme_year_alias]"
  by code_simp

lemma repair_twice_example:
  "updateToConformSchema host_2024 (brandsSchema host_2024) [acme_year_alias] =
     [[(''_id'', oid1), (''brandName'', JStr ''Acme''), (''headquarters'', JStr ''NYC''),
       (''numberOfLocations'', JNum 5), (''yearFounded'', JNum 1500)]] \<and>
   updateToConformSchema host_2024 (brandsSchema host_2024)
     [[(''_id'', oid1), (''brandName'', JStr ''Acme''), (''headquarters'', JStr ''NYC''),
       (''numberOfLocations'', JNum 5), (''yearFounded'', JNum 1500)]] =
     [[(''_id'', oid1), (''brandName'', JStr ''Acme''), (''headquarters'', JStr ''NYC''),
       (''numberOfLocations'', JNum 5)]]"
  by code_simp

text \<open>
  Claim C7, amended: the handling of one validation error is idempotent; handling the
  same error of the same validation result a second time changes nothing. (A second
  repair pass validates anew: it drops a brand that has become valid and handles the
  new errors of one that has not.)
\<close>

theorem repair_error_idempotent:
  "repair_error h vb (repair_error h vb brand e) e = repair_error h vb brand e"
  by (simp add: repair_error_def Let_def delete_set_twice delete_prop_idem)

section \<open>Nothing to repair\<close>

text \<open>
  Claim C9: when the repair pass over the fetched batch returns no brand,
  \<^verbatim>\<open>validateAndUpdate\<close> answers that all brand data is already correct and issues no
  \<^verbatim>\<open>bulkWrite\<close> call.
\<close>

theorem no_repair_no_write:
  "find_exec m = Some brands \<Longrightarrow> updateToConformSchema h S brands = [] \<Longrightarrow>
   validateAndUpdate h S m =
     (Inr \<lparr>statusCode = 200,
           message = ''All brand data is already correct. No updates needed.''\<rparr>, [])"
  by (simp add: validateAndUpdate_def)

theorem no_repair_no_write_witness:
  "find_exec (model_of [acme_conformant]) = Some [acme_conformant] \<and>
   updateToConformSchema host_2024 (brandsSchema host_2024) [acme_conformant] = [] \<and>
   validateAndUpdate host_2024 (brandsSchema host_2024) (model_of [acme_conformant]) =
     (Inr \<lparr>statusCode = 200,
           message = ''All brand data is already correct. No updates needed.''\<rparr>, [])"
proof -
  have f: "find_exec (model_of [acme_conformant]) = Some [acme_conformant]"
    by (simp add: model_of_def)
  have u: "updateToConformSchema host_2024 (brandsSchema host_2024) [acme_conformant] = []"
    by code_simp
  show ?thesis
    using no_repair_no_write [OF f u] f u by blast
qed

section \<open>The validator collects every failure\<close>

text \<open>
  Without \<^verbatim>\<open>abortEarly\<close> the failures of the declared keys are those of each key on its
  own value in the data: what an earlier key did to the copy does not reach a later key.
\<close>

lemma validate_keys_errors:
  assumes "\<not> abortEarly p"
  shows "distinct (map fst ks) \<Longrightarrow>
         snd (validate_keys h p ks v) =
           concat (map (\<lambda>kc. fst (validate_child h p (snd kc) (fst kc) (get_prop v (fst kc)))) ks)"
proof (induction ks arbitrary: v)
  case Nil
  then show ?case by simp
next
  case (Cons kc ks)
  let ?k = "fst kc"
  let ?r = "validate_child h p (snd kc) ?k (get_prop v ?k)"
  have d: "distinct (map fst ks)"
    using Cons.prems by simp
  have n: "\<forall>kc'\<in>set ks. fst kc' \<noteq> ?k"
    using Cons.prems by (fastforce simp: image_iff)
  obtain v' where
    step: "snd (validate_keys h p (kc # ks) v) = fst ?r @ snd (validate_keys h p ks v')" and
    frame: "\<forall>k'. k' \<noteq> ?k \<longrightarrow> get_prop v' k' = get_prop v k'"
  proof (cases "fst ?r = []")
    case True
    show thesis
      by (rule that [of "if snd ?r = JUndefined \<and> get_prop v ?k \<noteq> JUndefined
                         then delete_prop ?k v
                         else if snd ?r \<noteq> JUndefined then set_prop ?k (snd ?r) v else v"])
         (simp_all add: Let_def True get_set_other get_delete_other)
  next
    case False
    show thesis
      by (rule that [of "if snd ?r \<noteq> JUndefined then set_prop ?k (snd ?r) v else v"])
         (simp_all add: Let_def False assms get_set_other)
  qed
  have same: "map (\<lambda>kc'. fst (validate_child h p (snd kc') (fst kc') (get_prop v' (fst kc')))) ks =
              map (\<lambda>kc'. fst (validate_child h p (snd kc') (fst kc') (get_prop v (fst kc')))) ks"
    using frame n by (intro map_cong) auto
  show ?case
    unfolding step Cons.IH [OF d] same by simp
qed

text \<open>
  Claim C6, for the validator as modelled above with the options that \<^verbatim>\<open>validate\<close>
  passes. The error list is the concatenation, over all declared keys, of the failures of
  each key on its own value, followed by one failure for each undeclared property, so no
  failure hides another. For a number schema, a string that is an exact decimal literal
  (with a sign, a fraction, an exponent, zeros or white space around it) is checked
  exactly as the number it denotes, a string that is no decimal literal fails with
  \<^verbatim>\<open>number.base\<close>, and so does every string when conversion is off. The outcome is
  always a result: its error is absent exactly when no declared key fails and the data
  has no undeclared property.
\<close>

theorem validate_collects_all_errors:
  assumes "distinct (map fst keys)"
  shows "error (validate data (Joi_object h keys)) =
           (let errs =
                  concat (map (\<lambda>kc. fst (validate_child h \<lparr>abortEarly = False, convert = True\<rparr>
                                            (snd kc) (fst kc) (get_prop data (fst kc)))) keys)
                  @ map (\<lambda>k. \<lparr>err_type = ''object.unknown'', ctx_key = k,
                               ctx_value = get_prop data k\<rparr>)
                      (filter (\<lambda>k. k \<notin> set (map fst keys)) (Object_keys data))
            in if errs = [] then None else Some errs) \<and>
         (\<forall>c k s q. base c = JoiNumber \<and> signed_decimal (trim_str s) = Some q \<and>
                    exact_decimal (trim_str s) \<longrightarrow>
            validate_child h \<lparr>abortEarly = False, convert = True\<rparr> c k (JStr s) =
            validate_child h \<lparr>abortEarly = False, convert = True\<rparr> c k (JNum q)) \<and>
         (\<forall>c k s. base c = JoiNumber \<and> signed_decimal (trim_str s) = None \<longrightarrow>
            fst (validate_child h \<lparr>abortEarly = False, convert = True\<rparr> c k (JStr s)) =
              [\<lparr>err_type = ''number.base'', ctx_key = k, ctx_value = JStr s\<rparr>]) \<and>
         (\<forall>c k s. base c = JoiNumber \<longrightarrow>
            fst (validate_child h \<lparr>abortEarly = False, convert = False\<rparr> c k (JStr s)) =
              [\<lparr>err_type = ''number.base'', ctx_key = k, ctx_value = JStr s\<rparr>]) \<and>
         ((error (validate data (Joi_object h keys)) = None) =
            ((\<forall>kc\<in>set keys.
                fst (validate_child h \<lparr>abortEarly = False, convert = True\<rparr>
                       (snd kc) (fst kc) (get_prop data (fst kc))) = []) \<and>
             (\<forall>k\<in>set (Object_keys data). k \<in> set (map fst keys))))"
proof -
  have collect: "snd (validate_keys h \<lparr>abortEarly = False, convert = True\<rparr> keys data) =
      concat (map (\<lambda>kc. fst (validate_child h \<lparr>abortEarly = False, convert = True\<rparr>
                                (snd kc) (fst kc) (get_prop data (fst kc)))) keys)"
    using assms by (intro validate_keys_errors) simp_all
  have a: "error (validate data (Joi_object h keys)) =
           (let errs =
                  concat (map (\<lambda>kc. fst (validate_child h \<lparr>abortEarly = False, convert = True\<rparr>
                                            (snd kc) (fst kc) (get_prop data (fst kc)))) keys)
                  @ map (\<lambda>k. \<lparr>err_type = ''object.unknown'', ctx_key = k,
                               ctx_value = get_prop data k\<rparr>)
                      (filter (\<lambda>k. k \<notin> set (map fst keys)) (Object_keys data))
            in if errs = [] then None else Some errs)"
    by (simp add: validate_def Joi_object_def Let_def collect)
  have b: "validate_child h \<lparr>abortEarly = False, convert = True\<rparr> c k (JStr s) =
           validate_child h \<lparr>abortEarly = False, convert = True\<rparr> c k (JNum q)"
    if "base c = JoiNumber \<and> signed_decimal (trim_str s) = Some q \<and> exact_decimal (trim_str s)"
    for c k s q
    using that by (simp add: validate_child_def joi_coerce_def Let_def)
  have c: "fst (validate_child h \<lparr>abortEarly = False, convert = True\<rparr> c k (JStr s)) =
              [\<lparr>err_type = ''number.base'', ctx_key = k, ctx_value = JStr s\<rparr>]"
    if "base c = JoiNumber \<and> signed_decimal (trim_str s) = None" for c k s
    using that by (simp add: validate_child_def joi_coerce_def joi_rules_def Let_def)
  have d: "fst (validate_child h \<lparr>abortEarly = False, convert = False\<rparr> c k (JStr s)) =
              [\<lparr>err_type = ''number.base'', ctx_key = k, ctx_value = JStr s\<rparr>]"
    if "base c = JoiNumber" for c k s
    using that by (simp add: validate_child_def joi_rules_def Let_def)
  have e: "(error (validate data (Joi_object h keys)) = None) =
            ((\<forall>kc\<in>set keys.
                fst (validate_child h \<lparr>abortEarly = False, convert = True\<rparr>
                       (snd kc) (fst kc) (get_prop data (fst kc))) = []) \<and>
             (\<forall>k\<in>set (Object_keys data). k \<in> set (map fst keys)))"
    unfolding a by (simp add: Let_def filter_empty_conv)
  show ?thesis
    by (intro conjI allI impI) (fact a, erule b, erule c, erule d, fact e)
qed

theorem validate_collects_all_errors_witness:
  "distinct (map fst (brandsSchema_keys host_2024)) \<and>
   error (validate multi_error_brand (brandsSchema host_2024)) =
     Some [\<lparr>err_type = ''string.base'', ctx_key = ''brandName'', ctx_value = JNum 5\<rparr>,
           \<lparr>err_type = ''any.required'', ctx_key = ''headquarters'', ctx_value = JUndefined\<rparr>,
           \<lparr>err_type = ''number.min'', ctx_key = ''yearFounded'', ctx_value = JNum 1500\<rparr>,
           \<lparr>err_type = ''number.min'', ctx_key = ''numberOfLocations'',
             ctx_value = JNum (- (5 / 2))\<rparr>,
           \<lparr>err_type = ''object.unknown'', ctx_key = ''notes'', ctx_value = JStr ''x''\<rparr>]"
proof -
  have d: "distinct (map fst (brandsSchema_keys host_2024))"
    by code_simp
  from validate_collects_all_errors [OF d, where data = multi_error_brand and h = host_2024]
  have "error (validate multi_error_brand (Joi_object host_2024 (brandsSchema_keys host_2024))) =
           (let errs =
                  concat (map (\<lambda>kc. fst (validate_child host_2024
                                            \<lparr>abortEarly = False, convert = True\<rparr>
                                            (snd kc) (fst kc) (get_prop multi_error_brand (fst kc))))
                            (brandsSchema_keys host_2024))
                  @ map (\<lambda>k. \<lparr>err_type = ''object.unknown'', ctx_key = k,
                               ctx_value = get_prop multi_error_brand k\<rparr>)
                      (filter (\<lambda>k. k \<notin> set (map fst (brandsSchema_keys host_2024)))
                         (Object_keys multi_error_brand))
            in if errs = [] then None else Some errs)"
    by (rule conjunct1)
  also have "\<dots> =
     Some [\<lparr>err_type = ''string.base'', ctx_key = ''brandName'', ctx_value = JNum 5\<rparr>,
           \<lparr>err_type = ''any.required'', ctx_key = ''headquarters'', ctx_value = JUndefined\<rparr>,
           \<lparr>err_type = ''number.min'', ctx_key = ''yearFounded'', ctx_value = JNum 1500\<rparr>,
           \<lparr>err_type = ''number.min'', ctx_key = ''numberOfLocations'',
             ctx_value = JNum (- (5 / 2))\<rparr>,
           \<lparr>err_type = ''object.unknown'', ctx_key = ''notes'', ctx_value = JStr ''x''\<rparr>]"
    by code_simp
  finally show ?thesis
    using d by (simp add: brandsSchema_def)
qed

section \<open>Seed data is determined by the count and the years read\<close>

lemma generate_loop_fst:
  "fst (generate_loop faker getFullYear n i acc st) =
     acc @ map (\<lambda>j. fst (generate_brand faker getFullYear j)) [i..<n]"
proof (induction faker getFullYear n i acc st rule: generate_loop.induct)
  case (1 faker getFullYear n i acc st)
  show ?case
  proof (cases "i < n")
    case True
    then show ?thesis
      using "1.IH" [OF True refl]
      by (simp add: generate_loop.simps [of faker getFullYear n i] Let_def upt_conv_Cons)
  next
    case False
    then show ?thesis
      by (simp add: generate_loop.simps [of faker getFullYear n i])
  qed
qed

text \<open>
  Claim C10 says that two invocations of \<^verbatim>\<open>generateBrandsData\<close> with the same count
  return the same list. The upper bound of the year drawn is the year that the clock
  gives in each iteration: with a random source whose \<^verbatim>\<open>number.int\<close> counts down from
  the upper bound, an invocation in 2024 and one in 2026 return different lists, from
  the same state and for the count 1.
\<close>

theorem generateBrandsData_year_counterexample:
  "fst (generateBrandsData countdown_faker (\<lambda>i. 2024) 1 0) =
     [\<lparr>brandName = ''Acme'', yearFounded = 1923, headquarters = ''NYC'',
       numberOfLocations = 97\<rparr>] \<and>
   fst (generateBrandsData countdown_faker (\<lambda>i. 2026) 1 0) =
     [\<lparr>brandName = ''Acme'', yearFounded = 1925, headquarters = ''NYC'',
       numberOfLocations = 97\<rparr>] \<and>
   fst (generateBrandsData countdown_faker (\<lambda>i. 2024) 1 0) \<noteq>
   fst (generateBrandsData countdown_faker (\<lambda>i. 2026) 1 0)"
  by code_simp

text \<open>
  Claim C10, amended: \<^verbatim>\<open>generateBrandsData\<close> re-seeds the random source with
  \<open>100 + i\<close> before it draws the \<open>i\<close>-th brand, so the list it returns does not depend
  on the state of the random source before the call: it is the list of the brands drawn
  for the indices below the count, each from its own seed and the year read in its
  iteration. Two invocations with the same count that read the same year in every
  iteration return the same list, whatever the states they start from; and two calls of
  \<^verbatim>\<open>seedData\<close> that read the same years hand the same ten brands to \<^verbatim>\<open>insertMany\<close> and
  give the same response.
\<close>

theorem generateBrandsData_deterministic:
  "fst (generateBrandsData faker getFullYear n st) =
     map (\<lambda>i. fst (generate_brand faker getFullYear i)) [0..<n] \<and>
   ((\<forall>i<n. getFullYear i = getFullYear' i) \<longrightarrow>
      fst (generateBrandsData faker getFullYear n st) =
      fst (generateBrandsData faker getFullYear' n st')) \<and>
   snd (fst (seedData faker getFullYear insertMany st)) =
     [map (\<lambda>i. fst (generate_brand faker getFullYear i)) [0..<10]] \<and>
   ((\<forall>i<10. getFullYear i = getFullYear' i) \<longrightarrow>
      fst (seedData faker getFullYear insertMany st) =
      fst (seedData faker getFullYear' insertMany st'))"
proof -
  have list: "fst (generateBrandsData faker g m s) =
      map (\<lambda>i. fst (generate_brand faker g i)) [0..<m]" for g m s
    by (simp add: generateBrandsData_def generate_loop_fst)
  have same: "fst (generateBrandsData faker getFullYear m s) =
      fst (generateBrandsData faker getFullYear' m s')"
    if "\<forall>i<m. getFullYear i = getFullYear' i" for m s s'
    unfolding list using that by (intro map_cong refl) (simp add: generate_brand_def)
  have seeded: "snd (fst (seedData faker getFullYear insertMany st)) =
     [map (\<lambda>i. fst (generate_brand faker getFullYear i)) [0..<10]]"
    by (simp add: seedData_def Let_def list split: option.splits)
  have seed_same: "fst (seedData faker getFullYear insertMany st) =
      fst (seedData faker getFullYear' insertMany st')"
    if "\<forall>i<10. getFullYear i = getFullYear' i"
    using same [OF that, of st st'] by (simp add: seedData_def Let_def split: option.splits)
  show ?thesis using list same seeded seed_same by blast
qed

theorem generateBrandsData_deterministic_witness:
  "fst (generateBrandsData countdown_faker (\<lambda>i. 2024) 2 0) =
   fst (generateBrandsData countdown_faker (\<lambda>i. if i < 10 then 2024 else 2026) 2 7) \<and>
   fst (generateBrandsData countdown_faker (\<lambda>i. 2024) 2 0) =
     [\<lparr>brandName = ''Acme'', yearFounded = 1923, headquarters = ''NYC'',
       numberOfLocations = 97\<rparr>,
      \<lparr>brandName = ''Acme'', yearFounded = 1922, headquarters = ''NYC'',
       numberOfLocations = 96\<rparr>] \<and>
   fst (seedData countdown_faker (\<lambda>i. 2024) (\<lambda>brandData. Some brandData) 0) =
   fst (seedData countdown_faker (\<lambda>i. if i < 10 then 2024 else 2026)
          (\<lambda>brandData. Some brandData) 7)"
proof -
  have y: "(\<forall>i<2. (\<lambda>i::nat. 2024) i = (if i < 10 then 2024 else (2026 :: int))) \<and>
           (\<forall>i<10. (\<lambda>i::nat. 2024) i = (if i < 10 then 2024 else (2026 :: int)))"
    by simp
  have l: "map (\<lambda>i. fst (generate_brand countdown_faker (\<lambda>i. 2024) i)) [0..<2] =
     [\<lparr>brandName = ''Acme'', yearFounded = 1923, headquarters = ''NYC'',
       numberOfLocations = 97\<rparr>,
      \<lparr>brandName = ''Acme'', yearFounded = 1922, headquarters = ''NYC'',
       numberOfLocations = 96\<rparr>]"
    by code_simp
  from generateBrandsData_deterministic
    [where faker = countdown_faker and getFullYear = "\<lambda>i. 2024"
       and getFullYear' = "\<lambda>i. if i < 10 then 2024 else 2026" and n = 2 and st = 0 and st' = 7
       and insertMany = "\<lambda>brandData. Some brandData"]
    y
  have "fst (generateBrandsData countdown_faker (\<lambda>i. 2024) 2 0) =
          map (\<lambda>i. fst (generate_brand countdown_faker (\<lambda>i. 2024) i)) [0..<2] \<and>
        fst (generateBrandsData countdown_faker (\<lambda>i. 2024) 2 0) =
        fst (generateBrandsData countdown_faker (\<lambda>i. if i < 10 then 2024 else 2026) 2 7) \<and>
        fst (seedData countdown_faker (\<lambda>i. 2024) (\<lambda>brandData. Some brandData) 0) =
        fst (seedData countdown_faker (\<lambda>i. if i < 10 then 2024 else 2026)
               (\<lambda>brandData. Some brandData) 7)"
    by blast
  then have "fst (generateBrandsData countdown_faker (\<lambda>i. 2024) 2 0) =
          [\<lparr>brandName = ''Acme'', yearFounded = 1923, headquarters = ''NYC'',
            numberOfLocations = 97\<rparr>,
           \<lparr>brandName = ''Acme'', yearFounded = 1922, headquarters = ''NYC'',
            numberOfLocations = 96\<rparr>] \<and>
        fst (generateBrandsData countdown_faker (\<lambda>i. 2024) 2 0) =
        fst (generateBrandsData countdown_faker (\<lambda>i. if i < 10 then 2024 else 2026) 2 7) \<and>
        fst (seedData countdown_faker (\<lambda>i. 2024) (\<lambda>brandData. Some brandData) 0) =
        fst (seedData countdown_faker (\<lambda>i. if i < 10 then 2024 else 2026)
               (\<lambda>brandData. Some brandData) 7)"
    unfolding l .
  then show ?thesis by blast
qed

end
